theory Spec2Isabelle
  imports Main
begin

section \<open>JavaScript values used by the collaboration layer\<close>

text \<open>
  The payloads exchanged between the collaboration client
  (\<^verbatim>\<open>public/js/collaboration.js\<close>) and the relay (\<^verbatim>\<open>server.js\<close>) are flat
  JavaScript objects whose fields hold primitives. A primitive is modelled by \<open>jsval\<close>;
  numbers are restricted to the safe integers (whole numbers of magnitude below \<open>2^53\<close>;
  no fractions, no \<open>NaN\<close>), which is what identifiers, coordinates and millisecond
  timestamps are. An object is a finite map
  from field names to primitives; reading an absent field gives \<open>undefined\<close>.
\<close>

datatype jsval = JUndefined | JNull | JBool bool | JNum int | JStr string

type_synonym obj = "string \<rightharpoonup> jsval"

definition field :: "obj \<Rightarrow> string \<Rightarrow> jsval" where
  "field e k = (case e k of None \<Rightarrow> JUndefined | Some v \<Rightarrow> v)"

text \<open>JavaScript truthiness, as used by \<^verbatim>\<open>||\<close>, \<^verbatim>\<open>&&\<close> and \<^verbatim>\<open>if\<close>.\<close>

fun truthy :: "jsval \<Rightarrow> bool" where
  "truthy JUndefined = False"
| "truthy JNull = False"
| "truthy (JBool b) = b"
| "truthy (JNum n) = (n \<noteq> 0)"
| "truthy (JStr s) = (s \<noteq> [])"

definition js_or :: "jsval \<Rightarrow> jsval \<Rightarrow> jsval" where
  "js_or a b = (if truthy a then a else b)"

text \<open>
  Decimal rendering of an integer. This is how a template literal prints a number on the
  safe integers; beyond them JavaScript rounds to the shortest digits that read back and,
  from \<open>1e21\<close>, switches to exponent form, which is outside the values modelled here.
\<close>

definition digit_char :: "nat \<Rightarrow> char" where
  "digit_char d = ''0123456789'' ! d"

fun dec_nat :: "nat \<Rightarrow> string" where
  "dec_nat n = (if n < 10 then [digit_char n]
                else dec_nat (n div 10) @ [digit_char (n mod 10)])"

declare dec_nat.simps [simp del]

definition dec_int :: "int \<Rightarrow> string" where
  "dec_int i = (if i < 0 then CHR ''-'' # dec_nat (nat (- i)) else dec_nat (nat i))"

text \<open>String conversion performed by a template literal \<^verbatim>\<open>`${v}`\<close>.\<close>

fun to_string :: "jsval \<Rightarrow> string" where
  "to_string JUndefined = ''undefined''"
| "to_string JNull = ''null''"
| "to_string (JBool b) = (if b then ''true'' else ''false'')"
| "to_string (JNum n) = dec_int n"
| "to_string (JStr s) = s"

section \<open>Conflict resolver (\<^verbatim>\<open>CollaborationManager.resolveConflict\<close>)\<close>

text \<open>
  \<^verbatim>\<open>new Date(v).getTime()\<close>. The result is a number of milliseconds or \<open>NaN\<close>, modelled
  by \<open>None\<close>. Parsing a date string is left to the host (\<^verbatim>\<open>Date.parse\<close>), so it is the
  parameter \<open>parse\<close>. A number is clipped to the range of valid time values
  (\<open>8.64e15\<close> ms on either side of the epoch); \<open>null\<close> and booleans are converted to
  numbers; \<open>undefined\<close> gives an invalid date.
\<close>

fun date_getTime :: "(string \<Rightarrow> int option) \<Rightarrow> jsval \<Rightarrow> int option" where
  "date_getTime parse (JStr s) = parse s"
| "date_getTime parse (JNum n) =
     (if \<bar>n\<bar> \<le> 8640000000000000 then Some n else None)"
| "date_getTime parse (JBool b) = Some (if b then 1 else 0)"
| "date_getTime parse JNull = Some 0"
| "date_getTime parse JUndefined = None"

text \<open>The comparison \<^verbatim>\<open>a >= b\<close> on numbers: false as soon as one side is \<open>NaN\<close>.\<close>

fun js_ge :: "int option \<Rightarrow> int option \<Rightarrow> bool" where
  "js_ge (Some a) (Some b) = (b \<le> a)"
| "js_ge _ _ = False"

text \<open>
  The expression \<^verbatim>\<open>new Date(e.updated_at || e.modified || 0).getTime()\<close>, which the
  resolver evaluates once for each of its two arguments.
\<close>

definition entity_timestamp :: "(string \<Rightarrow> int option) \<Rightarrow> obj \<Rightarrow> int option" where
  "entity_timestamp parse e =
     date_getTime parse (js_or (js_or (field e ''updated_at'') (field e ''modified'')) (JNum 0))"

definition resolveConflict :: "(string \<Rightarrow> int option) \<Rightarrow> obj \<Rightarrow> obj \<Rightarrow> obj" where
  "resolveConflict parse localData remoteData =
     (let localTimestamp = entity_timestamp parse localData;
          remoteTimestamp = entity_timestamp parse remoteData
      in if js_ge remoteTimestamp localTimestamp then remoteData else localData)"

section \<open>Room registry and broadcast relay (\<^verbatim>\<open>server.js\<close>)\<close>

text \<open>
  The relay keeps no registry of its own: membership lives in the Socket.IO adapter, a
  table from room names to the set of socket ids in the room. The four library calls the
  handlers use are modelled after the library: \<^verbatim>\<open>socket.join(room)\<close> adds the socket
  to the room, \<^verbatim>\<open>socket.leave(room)\<close> removes it,
  \<^verbatim>\<open>socket.to(room).emit(ev, arg)\<close> sends to every socket of the room except the
  calling one, and \<^verbatim>\<open>io.to(room).emit(ev, arg)\<close> sends to every socket of the room.
  Only the rooms named \<^verbatim>\<open>board-...\<close> that the handlers address are tracked (the
  private room every socket has under its own id is not). A delivery is the recipient's
  socket id, the event name and the argument.
\<close>

type_synonym sid = string
type_synonym room = string
type_synonym adapter = "room \<Rightarrow> sid set"

datatype payload = PVal jsval | PObj obj

type_synonym delivery = "sid \<times> string \<times> payload"

definition socket_join :: "adapter \<Rightarrow> sid \<Rightarrow> room \<Rightarrow> adapter" where
  "socket_join rooms s r = rooms(r := insert s (rooms r))"

definition socket_leave :: "adapter \<Rightarrow> sid \<Rightarrow> room \<Rightarrow> adapter" where
  "socket_leave rooms s r = rooms(r := rooms r - {s})"

definition socket_to_emit :: "adapter \<Rightarrow> sid \<Rightarrow> room \<Rightarrow> string \<Rightarrow> payload \<Rightarrow> delivery set" where
  "socket_to_emit rooms s r ev p = (\<lambda>m. (m, ev, p)) ` (rooms r - {s})"

definition io_to_emit :: "adapter \<Rightarrow> room \<Rightarrow> string \<Rightarrow> payload \<Rightarrow> delivery set" where
  "io_to_emit rooms r ev p = (\<lambda>m. (m, ev, p)) ` rooms r"

text \<open>The adapter of a relay no socket has joined a room of yet.\<close>

definition empty_adapter :: adapter where
  "empty_adapter = (\<lambda>r. {})"

text \<open>The room name \<^verbatim>\<open>`board-${boardId}`\<close>.\<close>

definition board_room :: "jsval \<Rightarrow> room" where
  "board_room boardId = ''board-'' @ to_string boardId"

text \<open>
  The handlers registered in \<^verbatim>\<open>io.on('connection', ...)\<close>. Each takes the adapter and
  the id of the socket the event arrived on, and returns the adapter afterwards with the
  deliveries made.
\<close>

definition on_join_board :: "adapter \<Rightarrow> sid \<Rightarrow> jsval \<Rightarrow> adapter \<times> delivery set" where
  "on_join_board rooms s boardId =
     (let rooms1 = socket_join rooms s (board_room boardId)
      in (rooms1, socket_to_emit rooms1 s (board_room boardId) ''user-joined'' (PVal (JStr s))))"

definition on_leave_board :: "adapter \<Rightarrow> sid \<Rightarrow> jsval \<Rightarrow> adapter \<times> delivery set" where
  "on_leave_board rooms s boardId =
     (let rooms1 = socket_leave rooms s (board_room boardId)
      in (rooms1, socket_to_emit rooms1 s (board_room boardId) ''user-left'' (PVal (JStr s))))"

definition on_card_position_update :: "adapter \<Rightarrow> sid \<Rightarrow> obj \<Rightarrow> adapter \<times> delivery set" where
  "on_card_position_update rooms s data =
     (rooms, socket_to_emit rooms s (board_room (field data ''boardId''))
               ''card-position-update'' (PObj data))"

definition on_cursor_update :: "adapter \<Rightarrow> sid \<Rightarrow> obj \<Rightarrow> adapter \<times> delivery set" where
  "on_cursor_update rooms s data =
     (rooms, socket_to_emit rooms s (board_room (field data ''boardId''))
               ''cursor-update'' (PObj (data(''userId'' \<mapsto> JStr s))))"

definition on_typing_start :: "adapter \<Rightarrow> sid \<Rightarrow> obj \<Rightarrow> adapter \<times> delivery set" where
  "on_typing_start rooms s data =
     (rooms, socket_to_emit rooms s (board_room (field data ''boardId''))
               ''typing-start'' (PObj (data(''userId'' \<mapsto> JStr s))))"

definition on_typing_stop :: "adapter \<Rightarrow> sid \<Rightarrow> obj \<Rightarrow> adapter \<times> delivery set" where
  "on_typing_stop rooms s data =
     (rooms, socket_to_emit rooms s (board_room (field data ''boardId''))
               ''typing-stop'' (PObj (data(''userId'' \<mapsto> JStr s))))"

text \<open>
  When the transport closes, the library takes the socket out of every room and then runs
  the \<^verbatim>\<open>'disconnect'\<close> handler, whose body is a single \<^verbatim>\<open>console.log\<close>.
\<close>

definition on_disconnect :: "adapter \<Rightarrow> sid \<Rightarrow> adapter \<times> delivery set" where
  "on_disconnect rooms s = ((\<lambda>r. rooms r - {s}), {})"

text \<open>The events a socket can raise at the relay, and their dispatch by name.\<close>

datatype socket_event =
    JoinBoard jsval
  | LeaveBoard jsval
  | CardPositionUpdate obj
  | CursorUpdate obj
  | TypingStart obj
  | TypingStop obj
  | Disconnect

fun relay :: "adapter \<Rightarrow> sid \<Rightarrow> socket_event \<Rightarrow> adapter \<times> delivery set" where
  "relay rooms s (JoinBoard b) = on_join_board rooms s b"
| "relay rooms s (LeaveBoard b) = on_leave_board rooms s b"
| "relay rooms s (CardPositionUpdate d) = on_card_position_update rooms s d"
| "relay rooms s (CursorUpdate d) = on_cursor_update rooms s d"
| "relay rooms s (TypingStart d) = on_typing_start rooms s d"
| "relay rooms s (TypingStop d) = on_typing_stop rooms s d"
| "relay rooms s Disconnect = on_disconnect rooms s"

text \<open>The room an event is addressed to, and the name under which it is forwarded.\<close>

fun target_room :: "socket_event \<Rightarrow> room option" where
  "target_room (JoinBoard b) = Some (board_room b)"
| "target_room (LeaveBoard b) = Some (board_room b)"
| "target_room (CardPositionUpdate d) = Some (board_room (field d ''boardId''))"
| "target_room (CursorUpdate d) = Some (board_room (field d ''boardId''))"
| "target_room (TypingStart d) = Some (board_room (field d ''boardId''))"
| "target_room (TypingStop d) = Some (board_room (field d ''boardId''))"
| "target_room Disconnect = None"

text \<open>
  The card routes of the HTTP API end with a broadcast. The request is not tied to any
  socket, so they go through \<^verbatim>\<open>io.to\<close>. The database is outside the model: \<open>err\<close>
  says whether the statement failed, \<open>row\<close> is the \<^verbatim>\<open>board_id\<close> of the row the
  lookup found (if any), and \<open>newCard\<close> is the object the create route has assembled from
  the request body.
\<close>

definition post_card_emit :: "adapter \<Rightarrow> bool \<Rightarrow> jsval \<Rightarrow> obj \<Rightarrow> delivery set" where
  "post_card_emit rooms err board_id newCard =
     (if err then {} else io_to_emit rooms (board_room board_id) ''card-created'' (PObj newCard))"

definition put_card_emit :: "adapter \<Rightarrow> bool \<Rightarrow> jsval option \<Rightarrow> string \<Rightarrow> obj \<Rightarrow> delivery set" where
  "put_card_emit rooms err row cardId updates =
     (if err then {}
      else case row of
             None \<Rightarrow> {}
           | Some board_id \<Rightarrow>
               io_to_emit rooms (board_room board_id) ''card-updated''
                 (PObj ([''id'' \<mapsto> JStr cardId] ++ updates)))"

definition delete_card_emit :: "adapter \<Rightarrow> bool \<Rightarrow> jsval option \<Rightarrow> string \<Rightarrow> delivery set" where
  "delete_card_emit rooms err row cardId =
     (if err then {}
      else case row of
             None \<Rightarrow> {}
           | Some board_id \<Rightarrow>
               io_to_emit rooms (board_room board_id) ''card-deleted'' (PVal (JStr cardId)))"

section \<open>Collaboration client (\<^verbatim>\<open>CollaborationManager\<close>)\<close>

text \<open>
  The fields of the manager. \<open>socket\<close> says whether \<^verbatim>\<open>this.socket\<close> is set (it stays
  \<^verbatim>\<open>null\<close> when the Socket.IO script is missing). The two display tables, which hold
  DOM elements and timers, are reduced to their key sets.
\<close>

record client =
  socket :: bool
  connected :: bool
  currentBoard :: jsval
  currentUser :: string
  cursors :: "string set"
  typingIndicators :: "string set"
  connectionRetries :: nat

text \<open>
  What a method does to the outside: \<open>Send\<close> is \<^verbatim>\<open>this.socket.emit\<close> (a message to the
  relay), \<open>Fire\<close> is \<^verbatim>\<open>this.emit\<close> (the local subscribers' callbacks run with the
  given arguments).
\<close>

datatype effect = Send string payload | Fire string "payload list"

datatype js_error = TypeError

definition leaveBoard :: "client \<Rightarrow> client \<times> effect list" where
  "leaveBoard c =
     (if \<not> socket c \<or> \<not> truthy (currentBoard c) then (c, [])
      else (c\<lparr>currentBoard := JNull, cursors := {}, typingIndicators := {}\<rparr>,
            [Send ''leave-board'' (PVal (currentBoard c)),
             Fire ''board-left'' [PVal (currentBoard c)]]))"

definition joinBoard :: "jsval \<Rightarrow> client \<Rightarrow> client \<times> effect list" where
  "joinBoard boardId c =
     (if \<not> socket c \<or> \<not> connected c then (c, [])
      else let (c1, es) = (if truthy (currentBoard c) \<and> currentBoard c \<noteq> boardId
                           then leaveBoard c else (c, []))
           in (c1\<lparr>currentBoard := boardId\<rparr>,
               es @ [Send ''join-board'' (PVal boardId), Fire ''board-joined'' [PVal boardId]]))"

text \<open>The \<^verbatim>\<open>'connect'\<close> and \<^verbatim>\<open>'disconnect'\<close> listeners of the client's socket.\<close>

definition on_connect :: "client \<Rightarrow> client \<times> effect list" where
  "on_connect c =
     (let c1 = c\<lparr>connected := True, connectionRetries := 0\<rparr>
      in if truthy (currentBoard c1)
         then (let (c2, es) = joinBoard (currentBoard c1) c1 in (c2, Fire ''connected'' [] # es))
         else (c1, [Fire ''connected'' []]))"

definition on_socket_disconnect :: "jsval \<Rightarrow> client \<Rightarrow> client \<times> effect list" where
  "on_socket_disconnect reason c =
     (c\<lparr>connected := False, cursors := {}, typingIndicators := {}\<rparr>,
      [Fire ''disconnected'' [PVal reason]])"

text \<open>
  The two position broadcasts. \<open>now\<close> is \<^verbatim>\<open>Date.now()\<close>. Calling \<^verbatim>\<open>emit\<close> on a
  missing socket throws.
\<close>

definition broadcastCardPosition ::
    "jsval \<Rightarrow> jsval \<Rightarrow> jsval \<Rightarrow> client \<Rightarrow> js_error + client \<times> effect list" where
  "broadcastCardPosition cardId x y c =
     (if connected c \<and> truthy (currentBoard c)
      then (if socket c
            then Inr (c, [Send ''card-position-update''
                            (PObj [''cardId'' \<mapsto> cardId, ''x'' \<mapsto> x, ''y'' \<mapsto> y,
                                   ''boardId'' \<mapsto> currentBoard c,
                                   ''userId'' \<mapsto> JStr (currentUser c)])])
            else Inl TypeError)
      else Inr (c, []))"

definition broadcastCursorPosition ::
    "int \<Rightarrow> jsval \<Rightarrow> jsval \<Rightarrow> client \<Rightarrow> js_error + client \<times> effect list" where
  "broadcastCursorPosition now x y c =
     (if connected c \<and> truthy (currentBoard c)
      then (if socket c
            then Inr (c, [Send ''cursor-update''
                            (PObj [''x'' \<mapsto> x, ''y'' \<mapsto> y,
                                   ''boardId'' \<mapsto> currentBoard c,
                                   ''userId'' \<mapsto> JStr (currentUser c),
                                   ''timestamp'' \<mapsto> JNum now])])
            else Inl TypeError)
      else Inr (c, []))"

text \<open>The listeners for the four card events arriving from the relay.\<close>

definition on_card_created :: "payload \<Rightarrow> client \<Rightarrow> client \<times> effect list" where
  "on_card_created cardData c = (c, [Fire ''remote-card-created'' [cardData]])"

definition on_card_updated :: "payload \<Rightarrow> client \<Rightarrow> client \<times> effect list" where
  "on_card_updated updateData c = (c, [Fire ''remote-card-updated'' [updateData]])"

definition on_card_deleted :: "payload \<Rightarrow> client \<Rightarrow> client \<times> effect list" where
  "on_card_deleted cardId c = (c, [Fire ''remote-card-deleted'' [cardId]])"

definition on_remote_card_position :: "payload \<Rightarrow> client \<Rightarrow> client \<times> effect list" where
  "on_remote_card_position positionData c =
     (c, [Fire ''remote-card-position-update'' [positionData]])"

text \<open>The state of a manager just built, before the transport has connected.\<close>

definition new_client :: "string \<Rightarrow> client" where
  "new_client uid =
     \<lparr>socket = True, connected = False, currentBoard = JNull, currentUser = uid,
      cursors = {}, typingIndicators = {}, connectionRetries = 0\<rparr>"

section \<open>Properties of the conflict resolver\<close>

text \<open>
  Claim C5. \<open>resolveConflict\<close> returns the remote version exactly when the remote
  timestamp is greater than or equal to the local one (a comparison that is false when
  either date is invalid), and the local version otherwise; two versions carrying the same
  valid timestamp resolve to the remote one.
\<close>

theorem resolveConflict_last_write_wins:
  "(js_ge (entity_timestamp parse remoteData) (entity_timestamp parse localData)
      \<longrightarrow> resolveConflict parse localData remoteData = remoteData)
   \<and> (\<not> js_ge (entity_timestamp parse remoteData) (entity_timestamp parse localData)
      \<longrightarrow> resolveConflict parse localData remoteData = localData)
   \<and> (localData \<noteq> remoteData
      \<longrightarrow> (resolveConflict parse localData remoteData = remoteData
           \<longleftrightarrow> js_ge (entity_timestamp parse remoteData) (entity_timestamp parse localData)))
   \<and> (entity_timestamp parse localData = Some t \<and> entity_timestamp parse remoteData = Some t
      \<longrightarrow> resolveConflict parse localData remoteData = remoteData)"
  by (auto simp: resolveConflict_def Let_def)

theorem resolveConflict_last_write_wins_witness:
  "js_ge (entity_timestamp (\<lambda>s. None) [''id'' \<mapsto> JStr ''x'', ''updated_at'' \<mapsto> JNum 200])
         (entity_timestamp (\<lambda>s. None) [''id'' \<mapsto> JStr ''x'', ''updated_at'' \<mapsto> JNum 100])
   \<and> resolveConflict (\<lambda>s. None) [''id'' \<mapsto> JStr ''x'', ''updated_at'' \<mapsto> JNum 100]
                                  [''id'' \<mapsto> JStr ''x'', ''updated_at'' \<mapsto> JNum 200]
       = [''id'' \<mapsto> JStr ''x'', ''updated_at'' \<mapsto> JNum 200]
   \<and> \<not> js_ge (entity_timestamp (\<lambda>s. None) [''id'' \<mapsto> JStr ''x'', ''updated_at'' \<mapsto> JNum 100])
            (entity_timestamp (\<lambda>s. None) [''id'' \<mapsto> JStr ''x'', ''updated_at'' \<mapsto> JNum 200])
   \<and> resolveConflict (\<lambda>s. None) [''id'' \<mapsto> JStr ''x'', ''updated_at'' \<mapsto> JNum 200]
                                  [''id'' \<mapsto> JStr ''x'', ''updated_at'' \<mapsto> JNum 100]
       = [''id'' \<mapsto> JStr ''x'', ''updated_at'' \<mapsto> JNum 200]
   \<and> entity_timestamp (\<lambda>s. None) [''id'' \<mapsto> JStr ''x'', ''updated_at'' \<mapsto> JNum 100] = Some 100
   \<and> entity_timestamp (\<lambda>s. None) [''id'' \<mapsto> JStr ''y'', ''updated_at'' \<mapsto> JNum 100] = Some 100
   \<and> resolveConflict (\<lambda>s. None) [''id'' \<mapsto> JStr ''x'', ''updated_at'' \<mapsto> JNum 100]
                                  [''id'' \<mapsto> JStr ''y'', ''updated_at'' \<mapsto> JNum 100]
       = [''id'' \<mapsto> JStr ''y'', ''updated_at'' \<mapsto> JNum 100]"
proof -
  let ?P = "\<lambda>s::string. None :: int option"
  let ?a = "[''id'' \<mapsto> JStr ''x'', ''updated_at'' \<mapsto> JNum 100]"
  let ?b = "[''id'' \<mapsto> JStr ''x'', ''updated_at'' \<mapsto> JNum 200]"
  let ?c = "[''id'' \<mapsto> JStr ''y'', ''updated_at'' \<mapsto> JNum 100]"
  have ta: "entity_timestamp ?P ?a = Some 100"
    by (simp add: entity_timestamp_def field_def js_or_def)
  have tb: "entity_timestamp ?P ?b = Some 200"
    by (simp add: entity_timestamp_def field_def js_or_def)
  have tc: "entity_timestamp ?P ?c = Some 100"
    by (simp add: entity_timestamp_def field_def js_or_def)
  show ?thesis
    using resolveConflict_last_write_wins [of ?P ?b ?a 100]
          resolveConflict_last_write_wins [of ?P ?a ?b 100]
          resolveConflict_last_write_wins [of ?P ?c ?a 100]
    by (simp add: ta tb tc)
qed

text \<open>
  Claim C6. Resolving the outcome of a resolution against the same remote version again
  changes nothing: \<open>resolve (resolve a b) b = resolve a b\<close>.
\<close>

theorem resolveConflict_idempotent:
  "resolveConflict parse (resolveConflict parse a b) b = resolveConflict parse a b"
  by (cases "entity_timestamp parse b") (simp_all add: resolveConflict_def Let_def)

text \<open>
  Claim C10. The resolver compares, with \<open>>=\<close>, the dates built from one value per
  version: the version's \<open>updated_at\<close> when that is set, else its \<open>modified\<close> when
  that is set, else the number 0; it returns the remote version when the comparison
  holds and the local one otherwise. So a version with only \<open>modified\<close> is judged by
  \<open>modified\<close>, a version with both is judged by \<open>updated_at\<close>, a version with
  neither counts as time 0, and when neither version has an \<open>updated_at\<close> or a
  \<open>modified\<close> field the resolver returns the remote version.
\<close>

theorem resolveConflict_timestamp_fallback:
  "resolveConflict parse localData remoteData =
     (if js_ge
           (date_getTime parse
              (if truthy (field remoteData ''updated_at'') then field remoteData ''updated_at''
               else if truthy (field remoteData ''modified'') then field remoteData ''modified''
               else JNum 0))
           (date_getTime parse
              (if truthy (field localData ''updated_at'') then field localData ''updated_at''
               else if truthy (field localData ''modified'') then field localData ''modified''
               else JNum 0))
      then remoteData else localData)
   \<and> (localData ''updated_at'' = None \<and> localData ''modified'' = None
        \<longrightarrow> resolveConflict parse localData remoteData =
             (if js_ge (entity_timestamp parse remoteData) (Some 0)
              then remoteData else localData))
   \<and> (remoteData ''updated_at'' = None \<and> remoteData ''modified'' = None
        \<longrightarrow> resolveConflict parse localData remoteData =
             (if js_ge (Some 0) (entity_timestamp parse localData)
              then remoteData else localData))
   \<and> (truthy (field e ''updated_at'')
      \<longrightarrow> entity_timestamp parse e = date_getTime parse (field e ''updated_at''))
   \<and> (\<not> truthy (field e ''updated_at'') \<and> truthy (field e ''modified'')
      \<longrightarrow> entity_timestamp parse e = date_getTime parse (field e ''modified''))
   \<and> (e ''updated_at'' = None \<and> e ''modified'' = None \<longrightarrow> entity_timestamp parse e = Some 0)
   \<and> (localData ''updated_at'' = None \<and> localData ''modified'' = None
      \<and> remoteData ''updated_at'' = None \<and> remoteData ''modified'' = None
      \<longrightarrow> resolveConflict parse localData remoteData = remoteData)"
  by (simp add: resolveConflict_def Let_def entity_timestamp_def field_def js_or_def)

theorem resolveConflict_timestamp_fallback_witness:
  "resolveConflict (\<lambda>s. None) [''modified'' \<mapsto> JNum 50] [''updated_at'' \<mapsto> JNum 40]
     = [''modified'' \<mapsto> JNum 50]
   \<and> resolveConflict (\<lambda>s. None) [''updated_at'' \<mapsto> JNum 40] [''modified'' \<mapsto> JNum 50]
       = [''modified'' \<mapsto> JNum 50]
   \<and> resolveConflict (\<lambda>s. None) [''updated_at'' \<mapsto> JNum 10, ''modified'' \<mapsto> JNum 99]
                                  [''updated_at'' \<mapsto> JNum 20]
       = [''updated_at'' \<mapsto> JNum 20]
   \<and> [''id'' \<mapsto> JStr ''x''] ''updated_at'' = None \<and> [''id'' \<mapsto> JStr ''x''] ''modified'' = None
   \<and> resolveConflict (\<lambda>s. None) [''id'' \<mapsto> JStr ''x''] [''updated_at'' \<mapsto> JNum (- 5)]
       = [''id'' \<mapsto> JStr ''x'']
   \<and> resolveConflict (\<lambda>s. None) [''updated_at'' \<mapsto> JNum (- 5)] [''id'' \<mapsto> JStr ''x'']
       = [''id'' \<mapsto> JStr ''x'']
   \<and> truthy (field [''updated_at'' \<mapsto> JNum 7, ''modified'' \<mapsto> JNum 5] ''updated_at'')
   \<and> entity_timestamp (\<lambda>s. None) [''updated_at'' \<mapsto> JNum 7, ''modified'' \<mapsto> JNum 5] = Some 7
   \<and> \<not> truthy (field [''modified'' \<mapsto> JNum 5] ''updated_at'')
   \<and> truthy (field [''modified'' \<mapsto> JNum 5] ''modified'')
   \<and> entity_timestamp (\<lambda>s. None) [''modified'' \<mapsto> JNum 5] = Some 5
   \<and> [''id'' \<mapsto> JStr ''y''] ''updated_at'' = None \<and> [''id'' \<mapsto> JStr ''y''] ''modified'' = None
   \<and> entity_timestamp (\<lambda>s. None) [''id'' \<mapsto> JStr ''x''] = Some 0
   \<and> resolveConflict (\<lambda>s. None) [''id'' \<mapsto> JStr ''x''] [''id'' \<mapsto> JStr ''y'']
       = [''id'' \<mapsto> JStr ''y'']"
proof -
  let ?P = "\<lambda>s::string. None :: int option"
  have t1: "entity_timestamp ?P [''updated_at'' \<mapsto> JNum (- 5)] = Some (- 5)"
    by (simp add: entity_timestamp_def field_def js_or_def)
  show ?thesis
    using resolveConflict_timestamp_fallback
            [of ?P "[''modified'' \<mapsto> JNum 50]" "[''updated_at'' \<mapsto> JNum 40]"
                "[''updated_at'' \<mapsto> JNum 7, ''modified'' \<mapsto> JNum 5]"]
          resolveConflict_timestamp_fallback
            [of ?P "[''updated_at'' \<mapsto> JNum 40]" "[''modified'' \<mapsto> JNum 50]"
                "[''modified'' \<mapsto> JNum 5]"]
          resolveConflict_timestamp_fallback
            [of ?P "[''updated_at'' \<mapsto> JNum 10, ''modified'' \<mapsto> JNum 99]"
                "[''updated_at'' \<mapsto> JNum 20]" "[''id'' \<mapsto> JStr ''x'']"]
          resolveConflict_timestamp_fallback
            [of ?P "[''id'' \<mapsto> JStr ''x'']" "[''updated_at'' \<mapsto> JNum (- 5)]"
                "[''id'' \<mapsto> JStr ''x'']"]
          resolveConflict_timestamp_fallback
            [of ?P "[''updated_at'' \<mapsto> JNum (- 5)]" "[''id'' \<mapsto> JStr ''x'']"
                "[''id'' \<mapsto> JStr ''x'']"]
          resolveConflict_timestamp_fallback
            [of ?P "[''id'' \<mapsto> JStr ''x'']" "[''id'' \<mapsto> JStr ''y'']"
                "[''id'' \<mapsto> JStr ''x'']"]
    by (simp add: field_def t1)
qed


section \<open>Properties of the relay\<close>

lemma relay_deliveries:
  "target_room e = Some r \<Longrightarrow>
     \<exists>ev p. snd (relay rooms s e) = (\<lambda>m. (m, ev, p)) ` (rooms r - {s})"
  by (cases e)
     (auto simp: on_join_board_def on_leave_board_def on_card_position_update_def
        on_cursor_update_def on_typing_start_def on_typing_stop_def
        socket_join_def socket_leave_def socket_to_emit_def Let_def)

lemma relay_recipient_set:
  "target_room e = Some r \<Longrightarrow> fst ` snd (relay rooms s e) = rooms r - {s}"
proof -
  assume "target_room e = Some r"
  then obtain ev p where "snd (relay rooms s e) = (\<lambda>m. (m, ev, p)) ` (rooms r - {s})"
    using relay_deliveries by blast
  then show ?thesis by (simp add: image_image)
qed

lemma relay_rooms_after:
  "fst (relay rooms s e) r =
     (case e of
        JoinBoard b \<Rightarrow> if r = board_room b then insert s (rooms r) else rooms r
      | LeaveBoard b \<Rightarrow> if r = board_room b then rooms r - {s} else rooms r
      | Disconnect \<Rightarrow> rooms r - {s}
      | _ \<Rightarrow> rooms r)"
  by (cases e)
     (simp_all add: on_join_board_def on_leave_board_def on_card_position_update_def
        on_cursor_update_def on_typing_start_def on_typing_stop_def on_disconnect_def
        socket_join_def socket_leave_def Let_def)

text \<open>
  Claim C1, as amended. An event a socket raises at the relay (join, leave, card position,
  cursor, typing) is delivered to exactly the members of the addressed room other than
  that socket, and never to the socket itself; a disconnect delivers nothing. The card
  events that the HTTP routes broadcast (created, updated, deleted) go to every member of
  the board's room, nobody excluded.
\<close>

theorem relay_excludes_sender_http_does_not:
  "(target_room e = Some r \<longrightarrow>
      fst ` snd (relay rooms s e) = rooms r - {s}
      \<and> fst ` snd (relay rooms s e) = fst (relay rooms s e) r - {s})
   \<and> (target_room e = None \<longrightarrow> snd (relay rooms s e) = {})
   \<and> s \<notin> fst ` snd (relay rooms s e)
   \<and> fst ` post_card_emit rooms False board_id newCard = rooms (board_room board_id)
   \<and> fst ` put_card_emit rooms False (Some board_id) cardId updates = rooms (board_room board_id)
   \<and> fst ` delete_card_emit rooms False (Some board_id) cardId = rooms (board_room board_id)"
proof -
  have a: "target_room e = Some r \<longrightarrow>
      fst ` snd (relay rooms s e) = rooms r - {s}
      \<and> fst ` snd (relay rooms s e) = fst (relay rooms s e) r - {s}"
    using relay_recipient_set [of e r rooms s] relay_rooms_after [of rooms s e r]
    by (cases e) auto
  have b: "target_room e = None \<longrightarrow> snd (relay rooms s e) = {}"
    by (cases e) (simp_all add: on_disconnect_def)
  have c: "s \<notin> fst ` snd (relay rooms s e)"
  proof (cases "target_room e")
    case None
    with b show ?thesis by simp
  next
    case (Some r')
    then show ?thesis by (simp add: relay_recipient_set)
  qed
  have d: "fst ` post_card_emit rooms False board_id newCard = rooms (board_room board_id)"
    by (simp add: post_card_emit_def io_to_emit_def image_image)
  have e: "fst ` put_card_emit rooms False (Some board_id) cardId updates
             = rooms (board_room board_id)"
    by (simp add: put_card_emit_def io_to_emit_def image_image)
  have f: "fst ` delete_card_emit rooms False (Some board_id) cardId
             = rooms (board_room board_id)"
    by (simp add: delete_card_emit_def io_to_emit_def image_image)
  from a b c d e f show ?thesis by blast
qed

theorem relay_excludes_sender_http_does_not_witness:
  "target_room (CursorUpdate [''boardId'' \<mapsto> JStr ''1'', ''x'' \<mapsto> JNum 10, ''y'' \<mapsto> JNum 20])
     = Some ''board-1''
   \<and> fst ` snd (relay (empty_adapter(''board-1'' := {''A'', ''B''})) ''A''
        (CursorUpdate [''boardId'' \<mapsto> JStr ''1'', ''x'' \<mapsto> JNum 10, ''y'' \<mapsto> JNum 20]))
       = {''B''}
   \<and> target_room Disconnect = None
   \<and> snd (relay (empty_adapter(''board-1'' := {''A'', ''B''})) ''A'' Disconnect) = {}"
  using relay_excludes_sender_http_does_not
          [of "CursorUpdate [''boardId'' \<mapsto> JStr ''1'', ''x'' \<mapsto> JNum 10, ''y'' \<mapsto> JNum 20]"
              "''board-1''" "empty_adapter(''board-1'' := {''A'', ''B''})" "''A''"]
        relay_excludes_sender_http_does_not
          [of Disconnect "''board-1''" "empty_adapter(''board-1'' := {''A'', ''B''})" "''A''"]
  by (auto simp: board_room_def field_def empty_adapter_def)

text \<open>
  Claim C1 fails as stated: with socket A the only member of room \<open>board-1\<close>, the
  \<open>card-created\<close> event for a card A's own client has posted to board 1 is delivered
  to A.
\<close>

theorem card_created_reaches_originator:
  "(''A'', ''card-created'', PObj [''id'' \<mapsto> JStr ''c1'', ''board_id'' \<mapsto> JStr ''1''])
     \<in> post_card_emit (fst (relay empty_adapter ''A'' (JoinBoard (JStr ''1'')))) False (JStr ''1'')
          [''id'' \<mapsto> JStr ''c1'', ''board_id'' \<mapsto> JStr ''1'']"
  by (simp add: post_card_emit_def io_to_emit_def on_join_board_def socket_join_def
        board_room_def empty_adapter_def Let_def)

text \<open>
  Claim C2, as amended. Handling \<open>join-board\<close> adds the socket to the room of that board
  and takes it out of no room: every membership it had is kept. The relay removes a socket
  from a room only on that socket's own \<open>leave-board\<close> for the room or on its
  disconnect. So after joining board \<open>b1\<close> and then board \<open>b2\<close> the socket is a member
  of both rooms, and what another socket then sends to the room of \<open>b1\<close> is delivered
  to it.
\<close>

theorem join_board_keeps_memberships:
  "fst (relay rooms s (JoinBoard b)) (board_room b) = insert s (rooms (board_room b))
   \<and> (r \<noteq> board_room b \<longrightarrow> fst (relay rooms s (JoinBoard b)) r = rooms r)
   \<and> (m \<in> rooms r \<longrightarrow> m \<in> fst (relay rooms s (JoinBoard b)) r)
   \<and> (m \<in> rooms r \<and> m \<notin> fst (relay rooms s e) r
        \<longrightarrow> m = s \<and> (e = Disconnect \<or> (\<exists>b'. e = LeaveBoard b' \<and> board_room b' = r)))
   \<and> s \<in> fst (relay (fst (relay rooms s (JoinBoard b1))) s (JoinBoard b2)) (board_room b1)
   \<and> s \<in> fst (relay (fst (relay rooms s (JoinBoard b1))) s (JoinBoard b2)) (board_room b2)
   \<and> (s' \<noteq> s \<and> field d ''boardId'' = b1 \<longrightarrow>
        (s, ''cursor-update'', PObj (d(''userId'' \<mapsto> JStr s')))
          \<in> snd (relay (fst (relay (fst (relay rooms s (JoinBoard b1))) s (JoinBoard b2))) s'
                   (CursorUpdate d)))"
proof -
  have a: "m \<in> rooms r \<and> m \<notin> fst (relay rooms s e) r
        \<longrightarrow> m = s \<and> (e = Disconnect \<or> (\<exists>b'. e = LeaveBoard b' \<and> board_room b' = r))"
    using relay_rooms_after [of rooms s e r]
    by (cases e) (auto split: if_splits)
  have b: "s' \<noteq> s \<and> field d ''boardId'' = b1 \<longrightarrow>
        (s, ''cursor-update'', PObj (d(''userId'' \<mapsto> JStr s')))
          \<in> snd (relay (fst (relay (fst (relay rooms s (JoinBoard b1))) s (JoinBoard b2))) s'
                   (CursorUpdate d))"
    by (auto simp: on_cursor_update_def socket_to_emit_def relay_rooms_after
          simp del: relay.simps(1))
  from a b show ?thesis
    by (simp add: relay_rooms_after del: relay.simps)
qed

theorem join_board_keeps_memberships_witness:
  "''board-2'' \<noteq> board_room (JStr ''1'')
   \<and> fst (relay (empty_adapter(''board-2'' := {''B''})) ''A'' (JoinBoard (JStr ''1''))) ''board-2''
       = {''B''}
   \<and> ''B'' \<in> (empty_adapter(''board-2'' := {''B''})) ''board-2''
   \<and> ''B'' \<in> fst (relay (empty_adapter(''board-2'' := {''B''})) ''A'' (JoinBoard (JStr ''1'')))
               ''board-2''
   \<and> ''B'' \<notin> fst (relay (empty_adapter(''board-2'' := {''B''})) ''B'' (LeaveBoard (JStr ''2'')))
               ''board-2''
   \<and> ''B'' \<noteq> ''A'' \<and> field [''boardId'' \<mapsto> JStr ''1''] ''boardId'' = JStr ''1''
   \<and> (''A'', ''cursor-update'', PObj [''boardId'' \<mapsto> JStr ''1'', ''userId'' \<mapsto> JStr ''B''])
       \<in> snd (relay (fst (relay (fst (relay empty_adapter ''A'' (JoinBoard (JStr ''1''))))
                                 ''A'' (JoinBoard (JStr ''2''))))
                     ''B'' (CursorUpdate [''boardId'' \<mapsto> JStr ''1'']))"
  using join_board_keeps_memberships
          [of "empty_adapter(''board-2'' := {''B''})" "''A''" "JStr ''1''" "''board-2''" "''B''"
              "LeaveBoard (JStr ''2'')" "JStr ''1''" "JStr ''2''" "''B''"
              "[''boardId'' \<mapsto> JStr ''1'']"]
        join_board_keeps_memberships
          [of "empty_adapter(''board-2'' := {''B''})" "''B''" "JStr ''1''" "''board-2''" "''B''"
              "LeaveBoard (JStr ''2'')" "JStr ''1''" "JStr ''2''" "''A''"
              "[''boardId'' \<mapsto> JStr ''1'']"]
        join_board_keeps_memberships
          [of "empty_adapter" "''A''" "JStr ''1''" "''board-2''" "''B''"
              "LeaveBoard (JStr ''2'')" "JStr ''1''" "JStr ''2''" "''B''"
              "[''boardId'' \<mapsto> JStr ''1'']"]
  by (simp add: board_room_def field_def empty_adapter_def on_join_board_def on_leave_board_def
        on_cursor_update_def socket_join_def socket_leave_def socket_to_emit_def Let_def)

text \<open>
  Claim C2 fails as stated: socket A joins board 1 and then board 2 without leaving; it is
  still a member of room \<open>board-1\<close>, and the cursor update socket B then sends to board 1
  is delivered to A.
\<close>

theorem second_join_leaves_first_room_joined:
  "''A'' \<in> fst (relay (fst (relay empty_adapter ''A'' (JoinBoard (JStr ''1''))))
                      ''A'' (JoinBoard (JStr ''2''))) ''board-1''
   \<and> ''A'' \<in> fst (relay (fst (relay empty_adapter ''A'' (JoinBoard (JStr ''1''))))
                        ''A'' (JoinBoard (JStr ''2''))) ''board-2''
   \<and> (''A'', ''cursor-update'', PObj [''boardId'' \<mapsto> JStr ''1'', ''userId'' \<mapsto> JStr ''B''])
       \<in> snd (relay (fst (relay (fst (relay empty_adapter ''A'' (JoinBoard (JStr ''1''))))
                                 ''A'' (JoinBoard (JStr ''2''))))
                     ''B'' (CursorUpdate [''boardId'' \<mapsto> JStr ''1'']))"
  by (simp add: board_room_def field_def empty_adapter_def on_join_board_def
        on_cursor_update_def socket_join_def socket_to_emit_def Let_def)

lemma disconnect_effect:
  "snd (relay rooms s Disconnect) = {}
   \<and> fst (relay rooms s Disconnect) r = rooms r - {s}
   \<and> snd (relay rooms s (LeaveBoard b))
       = (\<lambda>m. (m, ''user-left'', PVal (JStr s))) ` (rooms (board_room b) - {s})"
  by (auto simp: on_disconnect_def on_leave_board_def socket_leave_def socket_to_emit_def Let_def)

text \<open>
  Claim C3 against the code. Sockets A and B are in room \<open>board-1\<close> and A's transport
  disconnects: A is taken out of the room, B stays, and nothing is delivered to B. Had A
  sent \<open>leave-board\<close> instead, B would have received \<open>user-left\<close> with A's id.
\<close>

theorem disconnect_sends_no_user_left:
  "snd (relay (fst (relay (fst (relay empty_adapter ''A'' (JoinBoard (JStr ''1''))))
                          ''B'' (JoinBoard (JStr ''1''))))
              ''A'' Disconnect) = {}
   \<and> fst (relay (fst (relay (fst (relay empty_adapter ''A'' (JoinBoard (JStr ''1''))))
                            ''B'' (JoinBoard (JStr ''1''))))
                ''A'' Disconnect) ''board-1'' = {''B''}
   \<and> snd (relay (fst (relay (fst (relay empty_adapter ''A'' (JoinBoard (JStr ''1''))))
                            ''B'' (JoinBoard (JStr ''1''))))
                ''A'' (LeaveBoard (JStr ''1''))) = {(''B'', ''user-left'', PVal (JStr ''A''))}"
  by (auto simp: board_room_def empty_adapter_def on_join_board_def on_leave_board_def
        on_disconnect_def socket_join_def socket_leave_def socket_to_emit_def Let_def)

text \<open>
  Claim C7, as amended. A \<open>cursor-update\<close>, \<open>typing-start\<close> or \<open>typing-stop\<close> is
  forwarded under the same name with its \<open>userId\<close> field set to the id of the socket it
  came from (replacing a \<open>userId\<close> the client put there) and every other field as
  received. A \<open>card-position-update\<close> is forwarded exactly as received: the relay adds
  no tag to it.
\<close>

theorem relay_forwarded_payload:
  assumes "(m, ev, p) \<in> snd (relay rooms s e)"
  shows "(e = CursorUpdate d \<longrightarrow> ev = ''cursor-update'' \<and> p = PObj (d(''userId'' \<mapsto> JStr s)))
   \<and> (e = TypingStart d \<longrightarrow> ev = ''typing-start'' \<and> p = PObj (d(''userId'' \<mapsto> JStr s)))
   \<and> (e = TypingStop d \<longrightarrow> ev = ''typing-stop'' \<and> p = PObj (d(''userId'' \<mapsto> JStr s)))
   \<and> (e = CardPositionUpdate d \<longrightarrow> ev = ''card-position-update'' \<and> p = PObj d)
   \<and> (e \<in> {CursorUpdate d, TypingStart d, TypingStop d} \<and> p = PObj d' \<longrightarrow>
        d' ''userId'' = Some (JStr s) \<and> (\<forall>k. k \<noteq> ''userId'' \<longrightarrow> d' k = d k))"
  using assms
  by (cases e)
     (auto simp: on_card_position_update_def on_cursor_update_def on_typing_start_def
        on_typing_stop_def socket_to_emit_def)

theorem relay_forwarded_payload_witness:
  "(''B'', ''cursor-update'',
      PObj [''x'' \<mapsto> JNum 10, ''y'' \<mapsto> JNum 20, ''boardId'' \<mapsto> JStr ''1'',
            ''userId'' \<mapsto> JStr ''A''])
     \<in> snd (relay (empty_adapter(''board-1'' := {''A'', ''B''})) ''A''
              (CursorUpdate [''x'' \<mapsto> JNum 10, ''y'' \<mapsto> JNum 20, ''boardId'' \<mapsto> JStr ''1'',
                             ''userId'' \<mapsto> JStr ''user_1'']))
   \<and> (''B'', ''card-position-update'',
      PObj [''cardId'' \<mapsto> JStr ''c1'', ''boardId'' \<mapsto> JStr ''1'', ''userId'' \<mapsto> JStr ''user_1''])
     \<in> snd (relay (empty_adapter(''board-1'' := {''A'', ''B''})) ''A''
              (CardPositionUpdate [''cardId'' \<mapsto> JStr ''c1'', ''boardId'' \<mapsto> JStr ''1'',
                                   ''userId'' \<mapsto> JStr ''user_1'']))
   \<and> [''x'' \<mapsto> JNum 10, ''y'' \<mapsto> JNum 20, ''boardId'' \<mapsto> JStr ''1'', ''userId'' \<mapsto> JStr ''A'']
        ''userId'' = Some (JStr ''A'')
   \<and> [''x'' \<mapsto> JNum 10, ''y'' \<mapsto> JNum 20, ''boardId'' \<mapsto> JStr ''1'', ''userId'' \<mapsto> JStr ''A'']
        ''x'' = [''x'' \<mapsto> JNum 10, ''y'' \<mapsto> JNum 20, ''boardId'' \<mapsto> JStr ''1'',
                ''userId'' \<mapsto> JStr ''user_1''] ''x''"
proof -
  let ?R = "empty_adapter(''board-1'' := {''A'', ''B''})"
  let ?d = "[''x'' \<mapsto> JNum 10, ''y'' \<mapsto> JNum 20, ''boardId'' \<mapsto> JStr ''1'',
             ''userId'' \<mapsto> JStr ''user_1'']"
  let ?q = "[''cardId'' \<mapsto> JStr ''c1'', ''boardId'' \<mapsto> JStr ''1'',
             ''userId'' \<mapsto> JStr ''user_1'']"
  have h1: "(''B'', ''cursor-update'', PObj (?d(''userId'' \<mapsto> JStr ''A'')))
              \<in> snd (relay ?R ''A'' (CursorUpdate ?d))"
    by (simp add: on_cursor_update_def socket_to_emit_def board_room_def field_def
          empty_adapter_def)
  have h2: "(''B'', ''card-position-update'', PObj ?q)
              \<in> snd (relay ?R ''A'' (CardPositionUpdate ?q))"
    by (simp add: on_card_position_update_def socket_to_emit_def board_room_def field_def
          empty_adapter_def)
  show ?thesis
    using h1 h2
          relay_forwarded_payload [OF h1, of ?d "?d(''userId'' \<mapsto> JStr ''A'')"]
          relay_forwarded_payload [OF h2, of ?q ?q]
    by simp
qed

text \<open>
  Claim C7 fails as stated: socket A sends a \<open>card-position-update\<close> whose \<open>userId\<close> is
  the client's own \<open>user_1\<close>; socket B receives the payload as sent, and A's socket id
  appears nowhere in it.
\<close>

theorem card_position_update_not_tagged:
  "(''B'', ''card-position-update'',
      PObj [''cardId'' \<mapsto> JStr ''c1'', ''boardId'' \<mapsto> JStr ''1'', ''userId'' \<mapsto> JStr ''user_1''])
     \<in> snd (relay (fst (relay (fst (relay empty_adapter ''A'' (JoinBoard (JStr ''1''))))
                              ''B'' (JoinBoard (JStr ''1''))))
                  ''A''
                  (CardPositionUpdate [''cardId'' \<mapsto> JStr ''c1'', ''boardId'' \<mapsto> JStr ''1'',
                                       ''userId'' \<mapsto> JStr ''user_1'']))
   \<and> JStr ''A'' \<notin> ran [''cardId'' \<mapsto> JStr ''c1'', ''boardId'' \<mapsto> JStr ''1'',
                         ''userId'' \<mapsto> JStr ''user_1'']"
  by (auto simp: board_room_def field_def empty_adapter_def on_join_board_def
        on_card_position_update_def socket_join_def socket_to_emit_def Let_def ran_def)

section \<open>Properties of the collaboration client\<close>

text \<open>
  Claim C4, as amended. For each of the four card events arriving from the relay, the
  client runs the local callbacks once with the payload as received and leaves its own
  state as it was. The payload is not inspected: no origin identity is compared with the
  client's own, and no event is discarded.
\<close>

theorem card_events_always_fire:
  "on_card_created p c = (c, [Fire ''remote-card-created'' [p]])
   \<and> on_card_updated p c = (c, [Fire ''remote-card-updated'' [p]])
   \<and> on_card_deleted p c = (c, [Fire ''remote-card-deleted'' [p]])
   \<and> on_remote_card_position p c = (c, [Fire ''remote-card-position-update'' [p]])"
  by (simp add: on_card_created_def on_card_updated_def on_card_deleted_def
        on_remote_card_position_def)

text \<open>
  Claim C4 fails as stated: a client whose identity is \<open>user_1\<close> receives a
  \<open>card-position-update\<close> whose \<open>userId\<close> is \<open>user_1\<close>, and the local callback fires
  with it.
\<close>

theorem own_card_event_not_discarded:
  "field [''cardId'' \<mapsto> JStr ''c1'', ''x'' \<mapsto> JNum 3, ''y'' \<mapsto> JNum 4,
          ''boardId'' \<mapsto> JStr ''1'', ''userId'' \<mapsto> JStr ''user_1''] ''userId''
     = JStr (currentUser (new_client ''user_1''))
   \<and> snd (on_remote_card_position
            (PObj [''cardId'' \<mapsto> JStr ''c1'', ''x'' \<mapsto> JNum 3, ''y'' \<mapsto> JNum 4,
                   ''boardId'' \<mapsto> JStr ''1'', ''userId'' \<mapsto> JStr ''user_1''])
            (new_client ''user_1''))
     = [Fire ''remote-card-position-update''
          [PObj [''cardId'' \<mapsto> JStr ''c1'', ''x'' \<mapsto> JNum 3, ''y'' \<mapsto> JNum 4,
                 ''boardId'' \<mapsto> JStr ''1'', ''userId'' \<mapsto> JStr ''user_1'']]]"
  by (simp add: on_remote_card_position_def field_def new_client_def)

text \<open>
  Claim C8, as amended. \<open>joinBoard\<close> called while the client is not connected does
  nothing: the state is unchanged (the board is not remembered) and nothing is emitted.
  When the transport connects, the client joins again the board \<open>currentBoard\<close> holds,
  that is the board it had joined while connected and has not left, if there is one;
  otherwise it joins nothing.
\<close>

theorem joinBoard_offline_is_dropped:
  "(\<not> connected c \<longrightarrow> joinBoard boardId c = (c, []))
   \<and> (socket c \<and> truthy (currentBoard c) \<longrightarrow>
        on_connect c =
          (c\<lparr>connected := True, connectionRetries := 0\<rparr>,
           [Fire ''connected'' [], Send ''join-board'' (PVal (currentBoard c)),
            Fire ''board-joined'' [PVal (currentBoard c)]]))
   \<and> (\<not> truthy (currentBoard c) \<longrightarrow>
        on_connect c = (c\<lparr>connected := True, connectionRetries := 0\<rparr>, [Fire ''connected'' []]))"
  by (simp add: joinBoard_def on_connect_def Let_def)

theorem joinBoard_offline_is_dropped_witness:
  "\<not> connected (new_client ''user_1'')
   \<and> joinBoard (JStr ''b1'') (new_client ''user_1'') = (new_client ''user_1'', [])
   \<and> \<not> truthy (currentBoard (new_client ''user_1''))
   \<and> snd (on_connect (new_client ''user_1'')) = [Fire ''connected'' []]
   \<and> socket ((new_client ''user_1'')\<lparr>currentBoard := JStr ''b1''\<rparr>)
   \<and> truthy (currentBoard ((new_client ''user_1'')\<lparr>currentBoard := JStr ''b1''\<rparr>))
   \<and> snd (on_connect ((new_client ''user_1'')\<lparr>currentBoard := JStr ''b1''\<rparr>))
       = [Fire ''connected'' [], Send ''join-board'' (PVal (JStr ''b1'')),
          Fire ''board-joined'' [PVal (JStr ''b1'')]]"
  using joinBoard_offline_is_dropped [of "new_client ''user_1''" "JStr ''b1''"]
        joinBoard_offline_is_dropped
          [of "(new_client ''user_1'')\<lparr>currentBoard := JStr ''b1''\<rparr>" "JStr ''b1''"]
  by (simp add: new_client_def)

text \<open>
  Claim C8 fails as stated: a fresh client, not yet connected, is asked to join board
  \<open>b1\<close>; its state is unchanged, and when the transport then connects only the
  \<open>connected\<close> callback runs: no \<open>join-board\<close> is sent.
\<close>

theorem offline_join_not_remembered:
  "fst (joinBoard (JStr ''b1'') (new_client ''user_1'')) = new_client ''user_1''
   \<and> snd (on_connect (fst (joinBoard (JStr ''b1'') (new_client ''user_1''))))
       = [Fire ''connected'' []]
   \<and> currentBoard (fst (on_connect (fst (joinBoard (JStr ''b1'') (new_client ''user_1'')))))
       = JNull"
  by (simp add: joinBoard_def on_connect_def new_client_def Let_def)

text \<open>
  Claim C9. Unless the client is connected and has a current board,
  \<open>broadcastCursorPosition\<close> and \<open>broadcastCardPosition\<close> return normally, emit
  nothing and leave every field of the client as it was; the client has no field that
  could hold a pending message.
\<close>

theorem position_broadcasts_dropped_outside_room:
  assumes "\<not> (connected c \<and> truthy (currentBoard c))"
  shows "broadcastCursorPosition now x y c = Inr (c, [])
   \<and> broadcastCardPosition cardId x y c = Inr (c, [])"
  using assms by (auto simp: broadcastCursorPosition_def broadcastCardPosition_def)

theorem position_broadcasts_dropped_outside_room_witness:
  "\<not> (connected (new_client ''user_1'') \<and> truthy (currentBoard (new_client ''user_1'')))
   \<and> broadcastCursorPosition 1700000000000 (JNum 10) (JNum 20) (new_client ''user_1'')
       = Inr (new_client ''user_1'', [])
   \<and> broadcastCardPosition (JStr ''c1'') (JNum 10) (JNum 20) (new_client ''user_1'')
       = Inr (new_client ''user_1'', [])
   \<and> \<not> (connected ((new_client ''user_1'')\<lparr>connected := True\<rparr>)
          \<and> truthy (currentBoard ((new_client ''user_1'')\<lparr>connected := True\<rparr>)))
   \<and> broadcastCursorPosition 1700000000000 (JNum 10) (JNum 20)
         ((new_client ''user_1'')\<lparr>connected := True\<rparr>)
       = Inr ((new_client ''user_1'')\<lparr>connected := True\<rparr>, [])"
proof -
  have h1: "\<not> (connected (new_client ''user_1'') \<and> truthy (currentBoard (new_client ''user_1'')))"
    by (simp add: new_client_def)
  have h2: "\<not> (connected ((new_client ''user_1'')\<lparr>connected := True\<rparr>)
               \<and> truthy (currentBoard ((new_client ''user_1'')\<lparr>connected := True\<rparr>)))"
    by (simp add: new_client_def)
  show ?thesis
    using h1 h2
          position_broadcasts_dropped_outside_room
            [OF h1, of 1700000000000 "JNum 10" "JNum 20" "JStr ''c1''"]
          position_broadcasts_dropped_outside_room
            [OF h2, of 1700000000000 "JNum 10" "JNum 20" "JStr ''c1''"]
    by simp
qed


end
